theory Spec2Isabelle
  imports Main
begin

section \<open>Shared Python values\<close>

text \<open>
  Exceptions are values. \<open>Exception\<close> stands for an instance of any \<open>Exception\<close>
  subclass not named below, with its message; \<open>RequestException\<close> for an instance of
  \<open>requests.exceptions.RequestException\<close> or of one of its subclasses (connection error,
  timeout); \<open>RuntimeError m c\<close> for \<open>raise RuntimeError(m) from c\<close>; \<open>AttributeError\<close>
  for a failed attribute lookup.
\<close>

datatype exn =
    Exception string
  | RequestException string
  | RuntimeError string exn
  | AttributeError string

datatype level = INFO | WARNING | ERROR | CRITICAL

datatype log_arg = ArgInt int | ArgExn exn

text \<open>
  What a handler does besides returning: the records it hands to \<open>logging\<close> (format string
  and arguments, as the source passes them) and the calls it makes on the two models.
\<close>

datatype log_record = Log level string "log_arg list"

datatype 'e event =
    Logged log_record
  | EncodeCall "string list"
  | PredictCall "'e list"

fun is_model_call :: "'e event \<Rightarrow> bool" where
  "is_model_call (Logged _) = False"
| "is_model_call (EncodeCall _) = True"
| "is_model_call (PredictCall _) = True"

section \<open>The inference service: score_headlines_api.py\<close>

text \<open>
  The two model objects are represented by the one method the service calls on each:
  \<open>EMBEDDER.encode\<close> takes the batch of headlines and \<open>CLASSIFIER.predict\<close> the batch of
  embeddings; either may raise. The classifier's output codes are integers.
\<close>

record 'e models =
  CLASSIFIER :: "'e list \<Rightarrow> exn + int list"
  EMBEDDER :: "string list \<Rightarrow> exn + 'e list"

record 'e loaders =
  joblib_load :: "string \<Rightarrow> exn + ('e list \<Rightarrow> exn + int list)"
  SentenceTransformer :: "string \<Rightarrow> exn + (string list \<Rightarrow> exn + 'e list)"

text \<open>Lines 15-22: the try block at module level that loads both models.\<close>

definition load_failed :: "exn \<Rightarrow> (exn + 'e models) \<times> 'e event list" where
  "load_failed e =
     (Inl (RuntimeError ''Model loading failed.'' e),
      [Logged (Log INFO ''Loading model---...'' []),
       Logged (Log CRITICAL ''Failed to load models: %s'' [ArgExn e])])"

definition module_init :: "'e loaders \<Rightarrow> (exn + 'e models) \<times> 'e event list" where
  "module_init L =
     (case joblib_load L ''svm.joblib'' of
        Inl e \<Rightarrow> load_failed e
      | Inr c \<Rightarrow>
          (case SentenceTransformer L ''all-MiniLM-L6-v2'' of
             Inl e \<Rightarrow> load_failed e
           | Inr m \<Rightarrow>
               (Inr \<lparr>CLASSIFIER = c, EMBEDDER = m\<rparr>,
                [Logged (Log INFO ''Loading model---...'' []),
                 Logged (Log INFO ''Models loaded successfully.'' [])])))"

text \<open>Lines 27-31: the dictionary \<open>LABELS\<close>, and \<open>dict.get\<close> with a default.\<close>

definition LABELS :: "int \<rightharpoonup> string" where
  "LABELS = [0 \<mapsto> ''Pessimistic'', 1 \<mapsto> ''Neutral'', 2 \<mapsto> ''Optimistic'']"

definition dict_get :: "('k \<rightharpoonup> 'v) \<Rightarrow> 'k \<Rightarrow> 'v \<Rightarrow> 'v" where
  "dict_get d k dflt = (case d k of None \<Rightarrow> dflt | Some v \<Rightarrow> v)"

text \<open>\<open>HTTPException(status_code, detail)\<close>.\<close>

datatype HTTPException = HTTPException int string

text \<open>
  A response body is a Python dictionary with string keys, kept as an association list:
  \<open>{"status": "OK"}\<close> and \<open>{"labels": labels}\<close>.
\<close>

datatype body =
    StatusBody "(string \<times> string) list"
  | LabelsBody "(string \<times> string list) list"

text \<open>Lines 33-39.\<close>

definition get_status :: "body \<times> log_record list" where
  "get_status = (StatusBody [(''status'', ''OK'')],
                 [Log INFO ''GET /status request received.'' []])"

text \<open>
  Lines 41-60. The \<open>try\<close> covers the two model calls and the comprehension; with integer
  codes the comprehension cannot raise, so the \<open>except\<close> branch is reached exactly when
  one of the two calls raises.
\<close>

definition prediction_failed :: "exn \<Rightarrow> 'e event list \<Rightarrow> (HTTPException + body) \<times> 'e event list" where
  "prediction_failed exc evs =
     (Inl (HTTPException 500 ''Internal server error.''),
      evs @ [Logged (Log ERROR ''Error during prediction: %s'' [ArgExn exc])])"

definition score_headlines :: "'e models \<Rightarrow> string list \<Rightarrow> (HTTPException + body) \<times> 'e event list" where
  "score_headlines M headlines =
     (let received = Logged (Log INFO
                       ''POST /score_headlines request received. Number of headlines: %d''
                       [ArgInt (int (length headlines))])
      in if headlines = [] then
           (Inl (HTTPException 400 ''No headlines provided.''),
            [received, Logged (Log WARNING ''Received empty headline list.'' [])])
         else
           (case EMBEDDER M headlines of
              Inl exc \<Rightarrow> prediction_failed exc [received, EncodeCall headlines]
            | Inr embeddings \<Rightarrow>
                (case CLASSIFIER M embeddings of
                   Inl exc \<Rightarrow>
                     prediction_failed exc
                       [received, EncodeCall headlines, PredictCall embeddings]
                 | Inr predictions \<Rightarrow>
                     (Inr (LabelsBody
                        [(''labels'', map (\<lambda>label. dict_get LABELS label ''Unknown'') predictions)]),
                      [received, EncodeCall headlines, PredictCall embeddings]))))"

text \<open>
  The process: the module body runs once; only if it completes are the two routes
  registered and requests dispatched to them, one after the other.
\<close>

datatype request = GET_status | POST_score_headlines "string list"

definition dispatch :: "'e models \<Rightarrow> request \<Rightarrow> (HTTPException + body) \<times> 'e event list" where
  "dispatch M req =
     (case req of
        GET_status \<Rightarrow> (Inr (fst get_status), map Logged (snd get_status))
      | POST_score_headlines hs \<Rightarrow> score_headlines M hs)"

definition serve :: "'e loaders \<Rightarrow> request list \<Rightarrow> exn + (HTTPException + body) list" where
  "serve L reqs =
     (case fst (module_init L) of
        Inl e \<Rightarrow> Inl e
      | Inr M \<Rightarrow> Inr (map (\<lambda>req. fst (dispatch M req)) reqs))"

section \<open>The dashboard client: score_headlines_streamlit.py\<close>

text \<open>
  \<open>str.strip()\<close> removes the whitespace at both ends. A character is a code point below
  256 here; among those, \<open>str.isspace\<close> holds of 9-13, 28-32, 133 and 160.
\<close>

definition isspace :: "char \<Rightarrow> bool" where
  "isspace c =
     (let n = (of_char c :: nat)
      in (9 \<le> n \<and> n \<le> 13) \<or> (28 \<le> n \<and> n \<le> 32) \<or> n = 133 \<or> n = 160)"

definition strip :: "string \<Rightarrow> string" where
  "strip s = rev (dropWhile isspace (rev (dropWhile isspace s)))"

text \<open>\<open>str(n)\<close> for an integer, as the f-string at line 106 formats the status code.\<close>

fun str_nat :: "nat \<Rightarrow> string" where
  "str_nat n =
     (if n < 10 then [char_of (48 + n)]
      else str_nat (n div 10) @ [char_of (48 + n mod 10)])"

definition str_int :: "int \<Rightarrow> string" where
  "str_int i = (if i < 0 then CHR ''-'' # str_nat (nat (- i)) else str_nat (nat i))"

text \<open>
  A decoded JSON document. An object is a Python dictionary, kept as an association list
  whose keys are distinct.
\<close>

datatype json =
    JNull
  | JBool bool
  | JNum int
  | JStr string
  | JList "json list"
  | JObj "(string \<times> json) list"

text \<open>
  What the client reads of a \<open>requests.Response\<close>: the attributes \<open>ok\<close>, \<open>status_code\<close>
  and \<open>text\<close>, and the result of calling \<open>json()\<close>, which may raise.
\<close>

record response =
  ok :: bool
  status_code :: int
  response_text :: string
  response_json :: "exn + json"

text \<open>\<open>st.session_state\<close>; \<open>None\<close> is Python's \<open>None\<close>.\<close>

record session_state =
  rows :: "string list"
  results :: "json option"
  used_rows :: "string list option"

text \<open>
  What \<open>score\<close> shows and sends, in order. \<open>Post url data headers timeout\<close> is the call
  of \<open>requests.post\<close>; its \<open>data\<close> is kept as the document handed to \<open>json.dumps\<close>.
  \<open>Spinner\<close> is the entry into \<open>st.spinner\<close>, without its caption.
\<close>

datatype ui_event =
    Warning string
  | Error string
  | Toast string
  | Spinner
  | Post string json "(string \<times> string) list" int

fun is_post :: "ui_event \<Rightarrow> bool" where
  "is_post (Post _ _ _ _) = True"
| "is_post _ = False"

fun is_error :: "ui_event \<Rightarrow> bool" where
  "is_error (Error _) = True"
| "is_error _ = False"

text \<open>
  Lines 113-115: only a \<open>RequestException\<close> is caught; anything else leaves \<open>score\<close>
  as an exception.
\<close>

definition request_failed ::
  "exn \<Rightarrow> session_state \<Rightarrow> ui_event list \<Rightarrow> (exn + json option) \<times> session_state \<times> ui_event list" where
  "request_failed exc st evs =
     (case exc of
        RequestException m \<Rightarrow> (Inr None, st, evs @ [Error (''Request failed: '' @ m)])
      | _ \<Rightarrow> (Inl exc, st, evs))"

text \<open>
  Lines 92-115. The first argument is the network: what \<open>requests.post\<close> answers to a URL
  and a document. The result is \<open>Inr None\<close> for \<open>return None\<close>, \<open>Inr (Some labels)\<close>
  for \<open>return labels\<close> and \<open>Inl\<close> for an exception that escapes.
\<close>

definition score ::
  "(string \<Rightarrow> json \<Rightarrow> exn + response) \<Rightarrow> string \<Rightarrow> string list \<Rightarrow> session_state
     \<Rightarrow> (exn + json option) \<times> session_state \<times> ui_event list" where
  "score requests_post backend_url rs st =
     (let payload_rows = map strip (filter (\<lambda>r. strip r \<noteq> []) rs)
      in if payload_rows = [] then
           (Inr None, st, [Warning ''Add at least one non-empty headline.''])
         else
           (let url = backend_url @ ''/score_headlines'';
                data = JObj [(''headlines'', JList (map JStr payload_rows))];
                sent = [Spinner, Post url data [(''Content-Type'', ''application/json'')] 30]
            in case requests_post url data of
                 Inl exc \<Rightarrow> request_failed exc st sent
               | Inr resp \<Rightarrow>
                   if \<not> ok resp then
                     (Inr None, st,
                      sent @ [Error (''API error '' @ str_int (status_code resp) @ '': ''
                                      @ response_text resp)])
                   else
                     (case response_json resp of
                        Inl exc \<Rightarrow> request_failed exc st sent
                      | Inr (JObj kvs) \<Rightarrow>
                          (let labels = dict_get (map_of kvs) ''labels'' (JList [])
                           in (Inr (Some labels),
                               st\<lparr>used_rows := Some payload_rows, results := Some labels\<rparr>,
                               sent @ [Toast ''Scored'']))
                      | Inr _ \<Rightarrow> request_failed (AttributeError ''get'') st sent)))"

text \<open>A row is blank when it holds nothing but whitespace.\<close>

definition blank :: "string \<Rightarrow> bool" where
  "blank r = list_all isspace r"

section \<open>Concrete models, networks and states\<close>

text \<open>
  An embedder that embeds a headline as its length, a classifier whose code is the
  embedding itself, and ones that raise.
\<close>

definition length_models :: "nat models" where
  "length_models =
     \<lparr>CLASSIFIER = (\<lambda>es. Inr (map int es)), EMBEDDER = (\<lambda>hs. Inr (map length hs))\<rparr>"

definition failing_embedder :: "nat models" where
  "failing_embedder =
     \<lparr>CLASSIFIER = (\<lambda>es. Inr (map int es)),
      EMBEDDER = (\<lambda>hs. Inl (Exception ''CUDA out of memory''))\<rparr>"

definition failing_classifier :: "nat models" where
  "failing_classifier =
     \<lparr>CLASSIFIER = (\<lambda>es. Inl (Exception ''X has 1 features, expecting 384'')),
      EMBEDDER = (\<lambda>hs. Inr (map length hs))\<rparr>"

definition good_loaders :: "nat loaders" where
  "good_loaders =
     \<lparr>joblib_load = (\<lambda>p. Inr (CLASSIFIER length_models)),
      SentenceTransformer = (\<lambda>n. Inr (EMBEDDER length_models))\<rparr>"

definition missing_file_loaders :: "nat loaders" where
  "missing_file_loaders =
     \<lparr>joblib_load = (\<lambda>p. Inl (Exception ''No such file or directory: svm.joblib'')),
      SentenceTransformer = (\<lambda>n. Inr (EMBEDDER length_models))\<rparr>"

definition fresh_session :: session_state where
  "fresh_session = \<lparr>rows = [''  Stocks sink  '', ''   ''], results = None, used_rows = None\<rparr>"

text \<open>
  A network that answers 300 Multiple Choices with a JSON object; \<open>requests\<close> reports
  \<open>ok\<close> for every status below 400.
\<close>

definition multiple_choices :: response where
  "multiple_choices =
     \<lparr>ok = True, status_code = 300, response_text = ''{\"labels\": [\"Neutral\"]}'',
      response_json = Inr (JObj [(''labels'', JList [JStr ''Neutral''])])\<rparr>"

definition network_300 :: "string \<Rightarrow> json \<Rightarrow> exn + response" where
  "network_300 url data = Inr multiple_choices"

definition unavailable :: response where
  "unavailable =
     \<lparr>ok = False, status_code = 503, response_text = ''Service Unavailable'',
      response_json = Inl (RequestException ''Expecting value'')\<rparr>"

definition network_503 :: "string \<Rightarrow> json \<Rightarrow> exn + response" where
  "network_503 url data = Inr unavailable"

definition network_down :: "string \<Rightarrow> json \<Rightarrow> exn + response" where
  "network_down url data = Inl (RequestException ''Connection refused'')"

section \<open>Properties of the inference service\<close>

lemma LABELS_get_cases:
  "dict_get LABELS c ''Unknown'' =
     (if c = 0 then ''Pessimistic'' else if c = 1 then ''Neutral''
      else if c = 2 then ''Optimistic'' else ''Unknown'')"
  by (simp add: dict_get_def LABELS_def)

lemma score_headlines_success:
  assumes "headlines \<noteq> []"
    and "EMBEDDER M headlines = Inr embeddings"
    and "CLASSIFIER M embeddings = Inr predictions"
  shows "fst (score_headlines M headlines) =
           Inr (LabelsBody [(''labels'', map (\<lambda>c. dict_get LABELS c ''Unknown'') predictions)])"
  using assms by (simp add: score_headlines_def)

text \<open>
  C1. For a non-empty batch, when the embedder returns one embedding per headline and the
  classifier one code per embedding, \<open>score_headlines\<close> returns \<open>{"labels": labels}\<close>
  where \<open>labels\<close> is as long as the batch and its entry at index \<open>i\<close> is the label of the
  code at index \<open>i\<close>.
\<close>

theorem score_headlines_index_aligned:
  assumes "headlines \<noteq> []"
    and "EMBEDDER M headlines = Inr embeddings"
    and "length embeddings = length headlines"
    and "CLASSIFIER M embeddings = Inr predictions"
    and "length predictions = length embeddings"
  shows "\<exists>labels. fst (score_headlines M headlines) = Inr (LabelsBody [(''labels'', labels)])
           \<and> length labels = length headlines
           \<and> (\<forall>i < length headlines. labels ! i = dict_get LABELS (predictions ! i) ''Unknown'')"
proof -
  let ?labels = "map (\<lambda>c. dict_get LABELS c ''Unknown'') predictions"
  have "fst (score_headlines M headlines) = Inr (LabelsBody [(''labels'', ?labels)])"
    using assms(1,2,4) by (rule score_headlines_success)
  moreover have "length ?labels = length headlines"
    using assms(3,5) by simp
  moreover have "\<forall>i < length headlines. ?labels ! i = dict_get LABELS (predictions ! i) ''Unknown''"
    using assms(3,5) by simp
  ultimately show ?thesis by blast
qed

theorem score_headlines_index_aligned_witness:
  "\<exists>labels. fst (score_headlines length_models [''a'', ''bcd'', ''xy'']) =
       Inr (LabelsBody [(''labels'', labels)])
     \<and> length labels = 3
     \<and> labels ! 0 = ''Neutral'' \<and> labels ! 1 = ''Unknown'' \<and> labels ! 2 = ''Optimistic''"
proof -
  have e: "EMBEDDER length_models [''a'', ''bcd'', ''xy''] = Inr [1, 3, 2]"
    by (simp add: length_models_def)
  have c: "CLASSIFIER length_models [1, 3, 2] = Inr [1, 3, 2]"
    by (simp add: length_models_def)
  from score_headlines_index_aligned
         [of "[''a'', ''bcd'', ''xy'']" length_models "[1, 3, 2]" "[1, 3, 2]"] e c
  obtain labels where
    l: "fst (score_headlines length_models [''a'', ''bcd'', ''xy'']) =
          Inr (LabelsBody [(''labels'', labels)])"
      "length labels = 3"
      "\<forall>i<3. labels ! i = dict_get LABELS ([1, 3, 2] ! i) ''Unknown''"
    by auto
  from l(3) have "labels ! 0 = ''Neutral''" "labels ! 1 = ''Unknown''" "labels ! 2 = ''Optimistic''"
    by (simp_all add: LABELS_get_cases)
  with l(1,2) show ?thesis by blast
qed

text \<open>
  C2. For the empty list \<open>score_headlines\<close> raises \<open>HTTPException(400)\<close>, whatever the
  models are, and what it does is two log records: no call of the embedder or of the
  classifier.
\<close>

theorem score_headlines_empty_400:
  "score_headlines M [] =
     (Inl (HTTPException 400 ''No headlines provided.''),
      [Logged (Log INFO ''POST /score_headlines request received. Number of headlines: %d''
                 [ArgInt 0]),
       Logged (Log WARNING ''Received empty headline list.'' [])])
   \<and> filter is_model_call (snd (score_headlines M [])) = []"
  by (simp add: score_headlines_def)

text \<open>
  C3. A classifier code outside \<open>{0, 1, 2}\<close> is labelled \<open>Unknown\<close>; 0, 1 and 2 are
  labelled \<open>Pessimistic\<close>, \<open>Neutral\<close> and \<open>Optimistic\<close>.
\<close>

theorem label_of_code:
  "(c \<notin> {0, 1, 2} \<longrightarrow> dict_get LABELS c ''Unknown'' = ''Unknown'')
   \<and> dict_get LABELS 0 ''Unknown'' = ''Pessimistic''
   \<and> dict_get LABELS 1 ''Unknown'' = ''Neutral''
   \<and> dict_get LABELS 2 ''Unknown'' = ''Optimistic''"
  by (simp add: LABELS_get_cases)

theorem label_of_code_witness:
  "(7::int) \<notin> {0, 1, 2} \<and> dict_get LABELS 7 ''Unknown'' = ''Unknown''
   \<and> (-1::int) \<notin> {0, 1, 2} \<and> dict_get LABELS (-1) ''Unknown'' = ''Unknown''"
  using label_of_code [of 7] label_of_code [of "-1"] by simp

text \<open>
  C4. In a process that serves (the module has loaded), every \<open>GET /status\<close> among the
  requests, wherever it comes in the sequence, is answered with exactly \<open>{"status": "OK"}\<close>.
\<close>

theorem get_status_ok:
  assumes "serve L reqs = Inr resps" and "i < length reqs" and "reqs ! i = GET_status"
  shows "fst get_status = StatusBody [(''status'', ''OK'')]
         \<and> resps ! i = Inr (StatusBody [(''status'', ''OK'')])"
proof (cases "fst (module_init L)")
  case (Inl e)
  with assms(1) show ?thesis by (simp add: serve_def)
next
  case (Inr M)
  with assms(1) have "resps = map (\<lambda>req. fst (dispatch M req)) reqs"
    by (simp add: serve_def)
  with assms(2,3) show ?thesis
    by (simp add: dispatch_def get_status_def)
qed

theorem get_status_ok_witness:
  "\<exists>resps. serve good_loaders [GET_status, POST_score_headlines [], GET_status] = Inr resps
     \<and> resps ! 0 = Inr (StatusBody [(''status'', ''OK'')])
     \<and> resps ! 2 = Inr (StatusBody [(''status'', ''OK'')])"
proof -
  let ?reqs = "[GET_status, POST_score_headlines [], GET_status]"
  obtain resps where r: "serve good_loaders ?reqs = Inr resps"
    by (simp add: serve_def module_init_def good_loaders_def)
  have "resps ! 0 = Inr (StatusBody [(''status'', ''OK'')])"
    using get_status_ok [OF r, of 0] by simp
  moreover have "resps ! 2 = Inr (StatusBody [(''status'', ''OK'')])"
    using get_status_ok [OF r, of 2] by simp
  ultimately show ?thesis using r by blast
qed

text \<open>
  C5. For a non-empty batch, if the embedder raises, or the classifier raises on the
  embeddings, \<open>score_headlines\<close> raises \<open>HTTPException(500)\<close> whose detail is the fixed
  string \<open>Internal server error.\<close>, the same for every exception; the exception itself
  goes to the log only.
\<close>

theorem prediction_error_generic_500:
  assumes "headlines \<noteq> []"
    and "EMBEDDER M headlines = Inl exc
         \<or> (\<exists>embeddings. EMBEDDER M headlines = Inr embeddings \<and> CLASSIFIER M embeddings = Inl exc)"
  shows "fst (score_headlines M headlines) = Inl (HTTPException 500 ''Internal server error.'')
         \<and> last (snd (score_headlines M headlines)) =
             Logged (Log ERROR ''Error during prediction: %s'' [ArgExn exc])"
  using assms by (auto simp: score_headlines_def prediction_failed_def)

theorem prediction_error_generic_500_witness:
  "fst (score_headlines failing_embedder [''Oil prices fall'']) =
     Inl (HTTPException 500 ''Internal server error.'')
   \<and> fst (score_headlines failing_classifier [''Oil prices fall'']) =
     Inl (HTTPException 500 ''Internal server error.'')"
proof -
  have "EMBEDDER failing_embedder [''Oil prices fall''] = Inl (Exception ''CUDA out of memory'')"
    by (simp add: failing_embedder_def)
  then have a: "fst (score_headlines failing_embedder [''Oil prices fall'']) =
     Inl (HTTPException 500 ''Internal server error.'')"
    using prediction_error_generic_500 [of "[''Oil prices fall'']" failing_embedder] by simp
  have "EMBEDDER failing_classifier [''Oil prices fall''] = Inr [15]
        \<and> CLASSIFIER failing_classifier [15] = Inl (Exception ''X has 1 features, expecting 384'')"
    by (simp add: failing_classifier_def)
  then have "fst (score_headlines failing_classifier [''Oil prices fall'']) =
     Inl (HTTPException 500 ''Internal server error.'')"
    using prediction_error_generic_500 [of "[''Oil prices fall'']" failing_classifier
            "Exception ''X has 1 features, expecting 384''"] by blast
  with a show ?thesis by simp
qed

lemma score_headlines_nonempty_status:
  assumes "headlines \<noteq> []"
  shows "fst (score_headlines M headlines) = Inl (HTTPException 500 ''Internal server error.'')
         \<or> (\<exists>b. fst (score_headlines M headlines) = Inr b)"
  using assms
  by (simp add: score_headlines_def prediction_failed_def Let_def split: sum.splits)

text \<open>
  C6, as the code has it. The service rejects a batch with 400 exactly when the list has
  no element; it does not trim. A batch whose elements are all whitespace is embedded and
  classified like any other (the dashboard client drops blank rows before it posts).
\<close>

theorem score_headlines_400_iff_empty:
  "(\<exists>d. fst (score_headlines M headlines) = Inl (HTTPException 400 d)) = (headlines = [])"
proof (cases "headlines = []")
  case True
  then show ?thesis by (simp add: score_headlines_def)
next
  case False
  from score_headlines_nonempty_status [OF False, of M] False show ?thesis by auto
qed

theorem score_headlines_400_iff_empty_witness:
  "(\<exists>d. fst (score_headlines length_models []) = Inl (HTTPException 400 d))
   \<and> \<not> (\<exists>d. fst (score_headlines length_models [''   '']) = Inl (HTTPException 400 d))"
  using score_headlines_400_iff_empty [of length_models "[]"]
        score_headlines_400_iff_empty [of length_models "[''   '']"]
  by simp

text \<open>
  C6, as stated, fails: the batch holding the single headline of three spaces is empty
  after trimming, and the service answers it with a label.
\<close>

theorem whitespace_batch_not_rejected:
  "strip ''   '' = [] \<and> list_all blank [''   '']
   \<and> fst (score_headlines length_models [''   '']) = Inr (LabelsBody [(''labels'', [''Unknown''])])"
  by (simp add: strip_def blank_def isspace_def score_headlines_def length_models_def
        LABELS_get_cases)

text \<open>
  C7. If loading the classifier or loading the embedding model raises, the module raises
  \<open>RuntimeError("Model loading failed.")\<close>, chained to the exception that was raised, and
  the process answers no request.
\<close>

theorem model_load_failure_fatal:
  assumes "joblib_load L ''svm.joblib'' = Inl e1
           \<or> SentenceTransformer L ''all-MiniLM-L6-v2'' = Inl e2"
  shows "\<exists>e. fst (module_init L) = Inl (RuntimeError ''Model loading failed.'' e)
             \<and> (joblib_load L ''svm.joblib'' = Inl e
                  \<or> SentenceTransformer L ''all-MiniLM-L6-v2'' = Inl e)
             \<and> serve L reqs = Inl (RuntimeError ''Model loading failed.'' e)"
  using assms
  by (auto simp: module_init_def load_failed_def serve_def split: sum.splits)

theorem model_load_failure_fatal_witness:
  "serve missing_file_loaders [GET_status, POST_score_headlines [''Oil prices fall'']] =
     Inl (RuntimeError ''Model loading failed.''
            (Exception ''No such file or directory: svm.joblib''))"
proof -
  let ?x = "Exception ''No such file or directory: svm.joblib''"
  let ?reqs = "[GET_status, POST_score_headlines [''Oil prices fall'']]"
  have h: "joblib_load missing_file_loaders ''svm.joblib'' = Inl ?x
           \<or> SentenceTransformer missing_file_loaders ''all-MiniLM-L6-v2'' = Inl ?x"
    by (simp add: missing_file_loaders_def)
  from model_load_failure_fatal [OF h, where reqs = ?reqs]
  obtain e where e: "serve missing_file_loaders ?reqs = Inl (RuntimeError ''Model loading failed.'' e)"
    and "joblib_load missing_file_loaders ''svm.joblib'' = Inl e
         \<or> SentenceTransformer missing_file_loaders ''all-MiniLM-L6-v2'' = Inl e"
    by blast
  then have "e = ?x"
    by (simp add: missing_file_loaders_def)
  with e show ?thesis by simp
qed

text \<open>
  C10. For a non-empty batch, whatever codes the classifier returns, the lookup of every
  code succeeds: the handler returns the labels (it does not take the error branch), one
  per code, and each label is one of the four strings.
\<close>

theorem labels_total_and_in_domain:
  assumes "headlines \<noteq> []"
    and "EMBEDDER M headlines = Inr embeddings"
    and "CLASSIFIER M embeddings = Inr predictions"
  shows "\<exists>labels. fst (score_headlines M headlines) = Inr (LabelsBody [(''labels'', labels)])
           \<and> length labels = length predictions
           \<and> set labels \<subseteq> {''Pessimistic'', ''Neutral'', ''Optimistic'', ''Unknown''}"
proof -
  let ?labels = "map (\<lambda>c. dict_get LABELS c ''Unknown'') predictions"
  have "fst (score_headlines M headlines) = Inr (LabelsBody [(''labels'', ?labels)])"
    using assms by (rule score_headlines_success)
  moreover have "set ?labels \<subseteq> {''Pessimistic'', ''Neutral'', ''Optimistic'', ''Unknown''}"
    by (auto simp: LABELS_get_cases)
  ultimately show ?thesis by auto
qed

theorem labels_total_and_in_domain_witness:
  "\<exists>labels. fst (score_headlines length_models [''Stocks rally on strong jobs report'']) =
       Inr (LabelsBody [(''labels'', labels)])
     \<and> length labels = 1
     \<and> set labels \<subseteq> {''Pessimistic'', ''Neutral'', ''Optimistic'', ''Unknown''}"
proof -
  have "EMBEDDER length_models [''Stocks rally on strong jobs report''] = Inr [34]"
    by (simp add: length_models_def)
  moreover have "CLASSIFIER length_models [34] = Inr [34]"
    by (simp add: length_models_def)
  ultimately show ?thesis
    using labels_total_and_in_domain
            [of "[''Stocks rally on strong jobs report'']" length_models "[34]" "[34]"]
    by simp
qed

section \<open>Properties of the dashboard client\<close>

lemma all_dropWhile_iff:
  "(\<forall>x \<in> set (dropWhile P xs). P x) \<longleftrightarrow> (\<forall>x \<in> set xs. P x)"
proof
  assume a: "\<forall>x \<in> set (dropWhile P xs). P x"
  have "dropWhile P xs = []"
  proof (rule ccontr)
    assume n: "dropWhile P xs \<noteq> []"
    then have "\<not> P (hd (dropWhile P xs))" by (rule hd_dropWhile)
    moreover from n have "hd (dropWhile P xs) \<in> set (dropWhile P xs)" by (rule hd_in_set)
    ultimately show False using a by blast
  qed
  then show "\<forall>x \<in> set xs. P x" by (simp only: dropWhile_eq_Nil_conv)
next
  assume "\<forall>x \<in> set xs. P x"
  then show "\<forall>x \<in> set (dropWhile P xs). P x" by (blast dest: set_dropWhileD)
qed

lemma strip_Nil_iff_blank: "strip r = [] \<longleftrightarrow> blank r"
  by (simp add: strip_def blank_def all_dropWhile_iff list_all_iff)

lemma dropWhile_isspace_split:
  "dropWhile isspace r = strip r @ rev (takeWhile isspace (rev (dropWhile isspace r)))"
proof -
  let ?d = "dropWhile isspace r"
  have "takeWhile isspace (rev ?d) @ dropWhile isspace (rev ?d) = rev ?d"
    by (rule takeWhile_dropWhile_id)
  then have "rev (takeWhile isspace (rev ?d) @ dropWhile isspace (rev ?d)) = rev (rev ?d)"
    by (rule arg_cong)
  then show ?thesis
    by (simp only: rev_append rev_rev_ident strip_def)
qed

lemma strip_decomposition:
  "r = takeWhile isspace r @ strip r @ rev (takeWhile isspace (rev (dropWhile isspace r)))"
proof -
  have "r = takeWhile isspace r @ dropWhile isspace r"
    by (simp only: takeWhile_dropWhile_id)
  with dropWhile_isspace_split [of r] show ?thesis by metis
qed

lemma strip_removes_whitespace_only:
  "list_all isspace (takeWhile isspace r)
   \<and> list_all isspace (rev (takeWhile isspace (rev (dropWhile isspace r))))"
  by (auto simp: list_all_iff dest: set_takeWhileD)

lemma strip_ends:
  assumes "strip r \<noteq> []"
  shows "\<not> isspace (hd (strip r)) \<and> \<not> isspace (last (strip r))"
proof -
  let ?d = "dropWhile isspace r"
  let ?e = "dropWhile isspace (rev ?d)"
  from assms have e: "?e \<noteq> []" by (simp only: strip_def rev_is_Nil_conv not_False_eq_True)
  have d: "?d \<noteq> []"
  proof
    assume "?d = []"
    then have "?e = []" by (simp only: rev.simps dropWhile.simps)
    with e show False by contradiction
  qed
  from e have "\<not> isspace (hd ?e)" by (rule hd_dropWhile)
  moreover have "last (strip r) = hd ?e"
    using e by (simp only: strip_def last_rev)
  ultimately have l: "\<not> isspace (last (strip r))" by simp
  from d have "\<not> isspace (hd ?d)" by (rule hd_dropWhile)
  moreover have "hd ?d = hd (strip r)"
    using dropWhile_isspace_split [of r] assms by (metis hd_append2)
  ultimately show ?thesis using l by simp
qed

lemma payload_rows_eq:
  "map strip (filter (\<lambda>r. strip r \<noteq> []) rs) = map strip (filter (\<lambda>r. \<not> blank r) rs)"
  by (simp add: strip_Nil_iff_blank)

lemma payload_rows_Nil_iff:
  "map strip (filter (\<lambda>r. strip r \<noteq> []) rs) = [] \<longleftrightarrow> list_all blank rs"
  by (simp add: strip_Nil_iff_blank filter_empty_conv list_all_iff)

lemma score_blank:
  assumes "list_all blank rs"
  shows "score net url rs st = (Inr None, st, [Warning ''Add at least one non-empty headline.''])"
proof -
  from assms have "map strip (filter (\<lambda>r. strip r \<noteq> []) rs) = []"
    by (simp only: payload_rows_Nil_iff)
  then show ?thesis by (simp add: score_def)
qed

lemma score_events_nonblank:
  assumes "\<not> list_all blank rs"
  shows "\<exists>tl. snd (snd (score net url rs st)) =
           [Spinner,
            Post (url @ ''/score_headlines'')
              (JObj [(''headlines'', JList (map JStr (map strip (filter (\<lambda>r. \<not> blank r) rs))))])
              [(''Content-Type'', ''application/json'')] 30] @ tl
         \<and> filter is_post tl = []"
proof -
  from assms have "map strip (filter (\<lambda>r. strip r \<noteq> []) rs) \<noteq> []"
    by (simp only: payload_rows_Nil_iff not_False_eq_True)
  then show ?thesis
    unfolding payload_rows_eq
    by (simp add: score_def Let_def request_failed_def payload_rows_eq
          split: sum.splits exn.splits json.splits)
qed

text \<open>
  C8. \<open>score\<close> posts the rows that are not blank, each trimmed, in their order, as
  \<open>{"headlines": [...]}\<close> to \<open>backend_url/score_headlines\<close>, and nothing else; when every
  row is blank it posts nothing, shows the warning and returns \<open>None\<close>, leaving the
  session state as it was. (\<open>strip_decomposition\<close>, \<open>strip_removes_whitespace_only\<close> and
  \<open>strip_ends\<close> say what trimming is; \<open>strip_Nil_iff_blank\<close> that a row is blank
  exactly when trimming leaves nothing.)
\<close>

theorem score_posts_trimmed_rows:
  "filter is_post (snd (snd (score net url rs st))) =
     (if list_all blank rs then []
      else [Post (url @ ''/score_headlines'')
              (JObj [(''headlines'', JList (map JStr (map strip (filter (\<lambda>r. \<not> blank r) rs))))])
              [(''Content-Type'', ''application/json'')] 30])
   \<and> (list_all blank rs \<longrightarrow>
        score net url rs st =
          (Inr None, st, [Warning ''Add at least one non-empty headline.'']))"
proof (cases "list_all blank rs")
  case True
  then show ?thesis by (simp add: score_blank)
next
  case False
  from score_events_nonblank [OF False, of net url st] False show ?thesis by auto
qed

lemma rows_example:
  "\<not> blank ''  Stocks sink  '' \<and> blank ''   '' \<and> blank []
   \<and> strip ''  Stocks sink  '' = ''Stocks sink''"
  by (simp add: blank_def strip_def isspace_def)

theorem score_posts_trimmed_rows_witness:
  "filter is_post (snd (snd (score network_down ''http://localhost:8013''
       [''  Stocks sink  '', ''   ''] fresh_session))) =
     [Post ''http://localhost:8013/score_headlines''
        (JObj [(''headlines'', JList [JStr ''Stocks sink''])])
        [(''Content-Type'', ''application/json'')] 30]
   \<and> score network_down ''http://localhost:8013'' [''   '', []] fresh_session =
       (Inr None, fresh_session, [Warning ''Add at least one non-empty headline.''])"
  using score_posts_trimmed_rows
          [of network_down "''http://localhost:8013''" "[''  Stocks sink  '', ''   '']" fresh_session]
        score_posts_trimmed_rows
          [of network_down "''http://localhost:8013''" "[''   '', []]" fresh_session]
  by (simp add: rows_example)

lemma score_request_exception:
  assumes "\<not> list_all blank rs"
    and "net (url @ ''/score_headlines'')
           (JObj [(''headlines'', JList (map JStr (map strip (filter (\<lambda>r. \<not> blank r) rs))))])
         = Inl (RequestException m)"
  shows "score net url rs st =
           (Inr None, st,
            [Spinner,
             Post (url @ ''/score_headlines'')
               (JObj [(''headlines'', JList (map JStr (map strip (filter (\<lambda>r. \<not> blank r) rs))))])
               [(''Content-Type'', ''application/json'')] 30,
             Error (''Request failed: '' @ m)])"
proof -
  from assms(1) have "map strip (filter (\<lambda>r. strip r \<noteq> []) rs) \<noteq> []"
    by (simp only: payload_rows_Nil_iff not_False_eq_True)
  then show ?thesis
    using assms(2) unfolding payload_rows_eq
    by (simp add: score_def Let_def request_failed_def payload_rows_eq)
qed

lemma score_not_ok:
  assumes "\<not> list_all blank rs"
    and "net (url @ ''/score_headlines'')
           (JObj [(''headlines'', JList (map JStr (map strip (filter (\<lambda>r. \<not> blank r) rs))))])
         = Inr resp"
    and "\<not> ok resp"
  shows "score net url rs st =
           (Inr None, st,
            [Spinner,
             Post (url @ ''/score_headlines'')
               (JObj [(''headlines'', JList (map JStr (map strip (filter (\<lambda>r. \<not> blank r) rs))))])
               [(''Content-Type'', ''application/json'')] 30,
             Error (''API error '' @ str_int (status_code resp) @ '': '' @ response_text resp)])"
proof -
  from assms(1) have "map strip (filter (\<lambda>r. strip r \<noteq> []) rs) \<noteq> []"
    by (simp only: payload_rows_Nil_iff not_False_eq_True)
  then show ?thesis
    using assms(2,3) unfolding payload_rows_eq
    by (simp add: score_def Let_def payload_rows_eq)
qed

lemma score_at_most_one_post:
  "length (filter is_post (snd (snd (score net url rs st)))) \<le> 1"
proof (cases "list_all blank rs")
  case True
  then show ?thesis by (simp add: score_blank)
next
  case False
  from score_events_nonblank [OF False, of net url st] show ?thesis by auto
qed

lemma score_state_changes_only_on_labels:
  assumes "\<forall>labels. fst (score net url rs st) \<noteq> Inr (Some labels)"
  shows "fst (snd (score net url rs st)) = st"
  using assms
  by (simp add: score_def Let_def request_failed_def
        split: if_splits sum.splits exn.splits json.splits)

text \<open>
  C9, as the code has it. An invocation of \<open>score\<close> issues at most one POST. When that
  request raises a \<open>RequestException\<close>, or is answered by a response whose \<open>ok\<close> is false
  (for \<open>requests\<close>: a status from 400 to 599), \<open>score\<close> returns \<open>None\<close>, leaves the
  session state (with \<open>results\<close> and \<open>used_rows\<close>) as it was, and shows an inline error
  after the one POST.
\<close>

theorem score_failure_keeps_state:
  "length (filter is_post (snd (snd (score net url rs st)))) \<le> 1
   \<and> (\<not> list_all blank rs
        \<and> ((\<exists>m. net (url @ ''/score_headlines'')
                   (JObj [(''headlines'',
                           JList (map JStr (map strip (filter (\<lambda>r. \<not> blank r) rs))))])
                 = Inl (RequestException m))
            \<or> (\<exists>resp. net (url @ ''/score_headlines'')
                   (JObj [(''headlines'',
                           JList (map JStr (map strip (filter (\<lambda>r. \<not> blank r) rs))))])
                 = Inr resp \<and> \<not> ok resp))
      \<longrightarrow> fst (score net url rs st) = Inr None
          \<and> fst (snd (score net url rs st)) = st
          \<and> is_error (last (snd (snd (score net url rs st))))
          \<and> length (filter is_post (snd (snd (score net url rs st)))) = 1)"
  using score_at_most_one_post [of net url rs st]
  by (auto simp: score_request_exception score_not_ok)

theorem score_failure_keeps_state_witness:
  "score network_down ''http://localhost:8013'' [''  Stocks sink  '', ''   ''] fresh_session =
     (Inr None, fresh_session,
      [Spinner,
       Post ''http://localhost:8013/score_headlines''
         (JObj [(''headlines'', JList [JStr ''Stocks sink''])])
         [(''Content-Type'', ''application/json'')] 30,
       Error ''Request failed: Connection refused''])
   \<and> fst (snd (score network_503 ''http://localhost:8013'' [''  Stocks sink  '', ''   '']
              fresh_session)) = fresh_session
   \<and> fst (score network_503 ''http://localhost:8013'' [''  Stocks sink  '', ''   '']
              fresh_session) = Inr None"
proof -
  let ?rs = "[''  Stocks sink  '', ''   '']"
  have nb: "\<not> list_all blank ?rs" by (simp add: rows_example)
  have d: "network_down (''http://localhost:8013'' @ ''/score_headlines'')
             (JObj [(''headlines'', JList (map JStr (map strip (filter (\<lambda>r. \<not> blank r) ?rs))))])
           = Inl (RequestException ''Connection refused'')"
    by (simp add: network_down_def)
  have u: "network_503 (''http://localhost:8013'' @ ''/score_headlines'')
             (JObj [(''headlines'', JList (map JStr (map strip (filter (\<lambda>r. \<not> blank r) ?rs))))])
           = Inr unavailable \<and> \<not> ok unavailable"
    by (simp add: network_503_def unavailable_def)
  from score_failure_keeps_state [of network_down "''http://localhost:8013''" ?rs fresh_session]
    nb d
  have a: "fst (score network_down ''http://localhost:8013'' ?rs fresh_session) = Inr None"
    "fst (snd (score network_down ''http://localhost:8013'' ?rs fresh_session)) = fresh_session"
    by blast+
  have ev: "snd (snd (score network_down ''http://localhost:8013'' ?rs fresh_session)) =
      [Spinner,
       Post ''http://localhost:8013/score_headlines''
         (JObj [(''headlines'', JList [JStr ''Stocks sink''])])
         [(''Content-Type'', ''application/json'')] 30,
       Error ''Request failed: Connection refused'']"
    by (simp add: score_def network_down_def request_failed_def rows_example strip_Nil_iff_blank)
  from score_failure_keeps_state [of network_503 "''http://localhost:8013''" ?rs fresh_session]
    nb u
  have b: "fst (score network_503 ''http://localhost:8013'' ?rs fresh_session) = Inr None"
    "fst (snd (score network_503 ''http://localhost:8013'' ?rs fresh_session)) = fresh_session"
    by blast+
  from a ev b show ?thesis by (metis prod.collapse)
qed

text \<open>
  C9, as stated, fails for a response outside 2xx that \<open>requests\<close> reports as \<open>ok\<close>:
  answered with status 300 and a JSON object, \<open>score\<close> shows no error and stores
  \<open>results\<close> and \<open>used_rows\<close>.
\<close>

theorem non_2xx_response_changes_state:
  "status_code multiple_choices = 300
   \<and> \<not> (200 \<le> status_code multiple_choices \<and> status_code multiple_choices < 300)
   \<and> network_300 ''http://localhost:8013/score_headlines''
        (JObj [(''headlines'', JList [JStr ''Stocks sink''])]) = Inr multiple_choices
   \<and> results fresh_session = None \<and> used_rows fresh_session = None
   \<and> score network_300 ''http://localhost:8013'' [''  Stocks sink  '', ''   ''] fresh_session =
       (Inr (Some (JList [JStr ''Neutral''])),
        fresh_session\<lparr>used_rows := Some [''Stocks sink''],
                       results := Some (JList [JStr ''Neutral''])\<rparr>,
        [Spinner,
         Post ''http://localhost:8013/score_headlines''
           (JObj [(''headlines'', JList [JStr ''Stocks sink''])])
           [(''Content-Type'', ''application/json'')] 30,
         Toast ''Scored''])
   \<and> results (fst (snd (score network_300 ''http://localhost:8013''
                [''  Stocks sink  '', ''   ''] fresh_session))) \<noteq> results fresh_session
   \<and> used_rows (fst (snd (score network_300 ''http://localhost:8013''
                [''  Stocks sink  '', ''   ''] fresh_session))) \<noteq> used_rows fresh_session"
  by (simp add: score_def network_300_def multiple_choices_def fresh_session_def dict_get_def
        rows_example strip_Nil_iff_blank Let_def)

end
